theory Spec2Isabelle
  imports Complex_Main
begin

section \<open>JavaScript values used by the components\<close>

text \<open>
  The TypeScript type \<open>number\<close> is used for ages, village identifiers and page
  indices. Page indices and the identifiers generated by the store (a SERIAL column) are
  integers and are modelled as \<open>int\<close>. The \<open>number\<close> fields of a citizen can also be
  produced by \<open>parseInt\<close> on a form field, which yields \<open>NaN\<close> when the field has
  no leading digits, so those fields carry a \<open>jsnum\<close>: an integer or \<open>NaN\<close>.
  Fractions and infinities do not occur in the values the components compute with.
\<close>

datatype jsnum = Num int | NaN

text \<open>\<open>a - b\<close> on numbers: \<open>NaN\<close> is absorbing.\<close>

fun js_sub :: "jsnum \<Rightarrow> jsnum \<Rightarrow> jsnum" where
  "js_sub (Num a) (Num b) = Num (a - b)"
| "js_sub _ _ = NaN"

text \<open>\<open>a === b\<close> on numbers: \<open>NaN\<close> is not equal to anything, itself included.\<close>

fun js_strict_eq :: "jsnum \<Rightarrow> jsnum \<Rightarrow> bool" where
  "js_strict_eq (Num a) (Num b) = (a = b)"
| "js_strict_eq _ _ = False"

text \<open>\<open>Math.ceil(a / b)\<close> for an integer \<open>a\<close> and a positive integer \<open>b\<close>.\<close>

definition ceil_div :: "int \<Rightarrow> int \<Rightarrow> int" where
  "ceil_div a b = - ((- a) div b)"

text \<open>
  \<open>Array.prototype.slice(start, end)\<close>: a negative index counts from the end of the
  array, both indices are clamped to the array, and an empty range gives the empty array.
\<close>

definition slice :: "'a list \<Rightarrow> int \<Rightarrow> int \<Rightarrow> 'a list" where
  "slice xs start end' =
     (let len = int (length xs);
          k = (if start < 0 then max (len + start) 0 else min start len);
          final = (if end' < 0 then max (len + end') 0 else min end' len)
      in take (nat (final - k)) (drop (nat k) xs))"

text \<open>
  \<open>String.prototype.toLowerCase\<close> on the ASCII letters; every other character is left
  as it is.
\<close>

definition lower_char :: "char \<Rightarrow> char" where
  "lower_char c =
     (let n = (of_char c :: nat) in if 65 \<le> n \<and> n \<le> 90 then char_of (n + 32) else c)"

definition toLowerCase :: "string \<Rightarrow> string" where
  "toLowerCase s = map lower_char s"

text \<open>\<open>s.startsWith(t)\<close> and \<open>s.includes(t)\<close>: \<open>t\<close> occurs in \<open>s\<close> as a substring.\<close>

fun startsWith :: "string \<Rightarrow> string \<Rightarrow> bool" where
  "startsWith s [] = True"
| "startsWith [] (c # t) = False"
| "startsWith (d # s) (c # t) = (d = c \<and> startsWith s t)"

fun includes_str :: "string \<Rightarrow> string \<Rightarrow> bool" where
  "includes_str [] t = (t = [])"
| "includes_str (d # s) t = (startsWith (d # s) t \<or> includes_str s t)"

text \<open>
  \<open>Array.prototype.sort(comparefn)\<close> belongs to the runtime, not to the repository.
  ECMAScript (2019 and later) requires it to be stable and to read a comparator result
  \<open>NaN\<close> as \<open>0\<close>. It is modelled as the stable insertion sort driven by the
  comparator: an element moves past exactly the elements the comparator places it
  strictly after. For a comparator that is a consistent ordering every conforming
  engine returns this same array.
\<close>

fun comes_after :: "jsnum \<Rightarrow> bool" where
  "comes_after (Num v) = (0 < v)"
| "comes_after NaN = False"

fun insert_sorted :: "('a \<Rightarrow> 'a \<Rightarrow> jsnum) \<Rightarrow> 'a \<Rightarrow> 'a list \<Rightarrow> 'a list" where
  "insert_sorted cmp x [] = [x]"
| "insert_sorted cmp x (y # ys) =
     (if comes_after (cmp x y) then y # insert_sorted cmp x ys else x # y # ys)"

definition array_sort :: "('a \<Rightarrow> 'a \<Rightarrow> jsnum) \<Rightarrow> 'a list \<Rightarrow> 'a list" where
  "array_sort cmp xs = foldr (insert_sorted cmp) xs []"

section \<open>The citizen table: filter, sort, paginate\<close>

text \<open>The \<open>Citizen\<close> interface; an optional field is absent as \<open>None\<close>.\<close>

record citizen =
  aadhar_number :: string
  name :: string
  dob :: string
  age :: jsnum
  gender :: string
  address :: string
  marital_status :: string
  father_name :: "string option"
  mother_name :: "string option"
  spouse_name :: "string option"
  education :: string
  occupation :: string
  village_id :: jsnum
  status :: string
  remarks :: "string option"

datatype search_type = SearchName | SearchAadhar

datatype sort_field = SortName | SortAadhar | SortAge

datatype sort_order = Asc | Desc

text \<open>The state hooks of \<open>CitizenTable\<close> that the query reads.\<close>

record table_state =
  searchTerm :: string
  currentPage :: int
  searchType :: search_type
  sortField :: sort_field
  sortOrder :: sort_order

definition initial_table_state :: table_state where
  "initial_table_state =
     \<lparr>searchTerm = [], currentPage = 1, searchType = SearchName,
      sortField = SortName, sortOrder = Asc\<rparr>"

definition itemsPerPage :: int where
  "itemsPerPage = 10"

definition filteredCitizens :: "citizen list \<Rightarrow> table_state \<Rightarrow> citizen list" where
  "filteredCitizens cits st =
     filter (\<lambda>c.
        if searchTerm st = [] then True
        else if searchType st = SearchName
          then includes_str (toLowerCase (name c)) (toLowerCase (searchTerm st))
          else includes_str (aadhar_number c) (searchTerm st))
       cits"

text \<open>
  The comparator handed to \<open>sort\<close>. \<open>localeCompare\<close> depends on the runtime's locale
  data and is a parameter \<open>lc\<close> of the model; it returns an integer.
\<close>

definition compareCitizens ::
  "(string \<Rightarrow> string \<Rightarrow> int) \<Rightarrow> table_state \<Rightarrow> citizen \<Rightarrow> citizen \<Rightarrow> jsnum" where
  "compareCitizens lc st a b =
     (case sortField st of
        SortName \<Rightarrow>
          (if sortOrder st = Asc then Num (lc (name a) (name b))
           else Num (lc (name b) (name a)))
      | SortAadhar \<Rightarrow>
          (if sortOrder st = Asc then Num (lc (aadhar_number a) (aadhar_number b))
           else Num (lc (aadhar_number b) (aadhar_number a)))
      | SortAge \<Rightarrow>
          (if sortOrder st = Asc then js_sub (age a) (age b)
           else js_sub (age b) (age a)))"

definition sortedCitizens ::
  "(string \<Rightarrow> string \<Rightarrow> int) \<Rightarrow> citizen list \<Rightarrow> table_state \<Rightarrow> citizen list" where
  "sortedCitizens lc cits st =
     array_sort (compareCitizens lc st) (filteredCitizens cits st)"

text \<open>
  The sort key of a citizen under a sort field: the value the comparator reads from each
  of its two arguments.
\<close>

fun sort_key_of :: "sort_field \<Rightarrow> citizen \<Rightarrow> string + jsnum" where
  "sort_key_of SortName c = Inl (name c)"
| "sort_key_of SortAadhar c = Inl (aadhar_number c)"
| "sort_key_of SortAge c = Inr (age c)"

definition totalPages ::
  "(string \<Rightarrow> string \<Rightarrow> int) \<Rightarrow> citizen list \<Rightarrow> table_state \<Rightarrow> int" where
  "totalPages lc cits st =
     ceil_div (int (length (sortedCitizens lc cits st))) itemsPerPage"

definition startIndex :: "table_state \<Rightarrow> int" where
  "startIndex st = (currentPage st - 1) * itemsPerPage"

definition paginatedCitizens ::
  "(string \<Rightarrow> string \<Rightarrow> int) \<Rightarrow> citizen list \<Rightarrow> table_state \<Rightarrow> citizen list" where
  "paginatedCitizens lc cits st =
     slice (sortedCitizens lc cits st) (startIndex st) (startIndex st + itemsPerPage)"

subsection \<open>Page numbers shown by the navigation\<close>

datatype page_item = Page int | Ellipsis

text \<open>The loop \<open>for (let i = lo; i <= hi; i++) pages.push(i)\<close>.\<close>

function push_pages :: "int \<Rightarrow> int \<Rightarrow> page_item list \<Rightarrow> page_item list" where
  "push_pages i hi pages =
     (if i \<le> hi then push_pages (i + 1) hi (pages @ [Page i]) else pages)"
  by pat_completeness auto
termination
  by (relation "measure (\<lambda>(i, hi, pages). nat (hi + 1 - i))") auto

declare push_pages.simps [simp del]

definition maxVisiblePages :: int where
  "maxVisiblePages = 5"

definition getPageNumbers :: "int \<Rightarrow> int \<Rightarrow> page_item list" where
  "getPageNumbers tp cp =
     (if tp \<le> maxVisiblePages then push_pages 1 tp []
      else if cp \<le> 3 then push_pages 1 4 [] @ [Ellipsis] @ [Page tp]
      else if cp \<ge> tp - 2
        then push_pages (tp - 3) tp ([Page 1] @ [Ellipsis])
      else [Page 1] @ [Ellipsis] @ [Page (cp - 1)] @ [Page cp]
             @ [Page (cp + 1)] @ [Ellipsis] @ [Page tp])"

subsection \<open>The controls of the table\<close>

text \<open>
  The handlers of the table's controls. The search box sets the term, the two buttons
  set the search mode, a column header toggles the order of the active sort field or
  selects a new field in ascending order, and the navigation sets the page:
  \<open>Previous\<close> to \<open>Math.max(prev - 1, 1)\<close>, \<open>Next\<close> to
  \<open>Math.min(prev + 1, totalPages)\<close>, a page link to its page. No handler other
  than the three of the navigation writes \<open>currentPage\<close>.
\<close>

datatype table_event =
    ChangeSearchTerm string
  | ClickSearchType search_type
  | ClickHeader sort_field
  | ClickPrevious
  | ClickNext
  | ClickPage int

definition table_handler ::
  "(string \<Rightarrow> string \<Rightarrow> int) \<Rightarrow> citizen list \<Rightarrow> table_state \<Rightarrow> table_event \<Rightarrow> table_state" where
  "table_handler lc cits st ev =
     (case ev of
        ChangeSearchTerm v \<Rightarrow> st\<lparr>searchTerm := v\<rparr>
      | ClickSearchType t \<Rightarrow> st\<lparr>searchType := t\<rparr>
      | ClickHeader f \<Rightarrow>
          (if sortField st = f
           then st\<lparr>sortOrder := (if sortOrder st = Asc then Desc else Asc)\<rparr>
           else st\<lparr>sortField := f, sortOrder := Asc\<rparr>)
      | ClickPrevious \<Rightarrow> st\<lparr>currentPage := max (currentPage st - 1) 1\<rparr>
      | ClickNext \<Rightarrow> st\<lparr>currentPage := min (currentPage st + 1) (totalPages lc cits st)\<rparr>
      | ClickPage p \<Rightarrow> st\<lparr>currentPage := p\<rparr>)"

text \<open>
  A control can be used only while it is rendered: the column headers while the filtered
  list is not empty, the navigation while there is more than one page, and a page link
  for the page numbers \<open>getPageNumbers\<close> lists.
\<close>

definition rendered ::
  "(string \<Rightarrow> string \<Rightarrow> int) \<Rightarrow> citizen list \<Rightarrow> table_state \<Rightarrow> table_event \<Rightarrow> bool" where
  "rendered lc cits st ev =
     (case ev of
        ChangeSearchTerm v \<Rightarrow> True
      | ClickSearchType t \<Rightarrow> True
      | ClickHeader f \<Rightarrow> filteredCitizens cits st \<noteq> []
      | ClickPrevious \<Rightarrow> 1 < totalPages lc cits st
      | ClickNext \<Rightarrow> 1 < totalPages lc cits st
      | ClickPage p \<Rightarrow>
          1 < totalPages lc cits st
          \<and> Page p \<in> set (getPageNumbers (totalPages lc cits st) (currentPage st)))"

text \<open>
  A session at the table: the events are taken in order; \<open>None\<close> when an event uses a
  control that is not on the screen at that moment.
\<close>

fun table_run ::
  "(string \<Rightarrow> string \<Rightarrow> int) \<Rightarrow> citizen list \<Rightarrow> table_state \<Rightarrow> table_event list
     \<Rightarrow> table_state option" where
  "table_run lc cits st [] = Some st"
| "table_run lc cits st (ev # evs) =
     (if rendered lc cits st ev then table_run lc cits (table_handler lc cits st ev) evs
      else None)"

section \<open>The remote store, seen from the client\<close>

text \<open>
  A call to the store resolves to an object with a \<open>data\<close> and an \<open>error\<close>
  member, each of which may be null. The store is outside the program: what a call
  resolves to is an input of the handler that awaits it.
\<close>

datatype remote_error = RemoteError string

fun message :: "remote_error \<Rightarrow> string" where
  "message (RemoteError m) = m"

record 'a response =
  data :: "'a option"
  error :: "remote_error option"

text \<open>A row of the \<open>villages\<close> table.\<close>

record village_row =
  row_village_id :: int
  village_name :: string
  district_name :: string
  row_pincode :: string

section \<open>Home: the owner of the two caches\<close>

text \<open>The \<open>Village\<close> interface of \<open>Home\<close>.\<close>

record village =
  id_v :: int
  name_v :: string
  district :: string
  pincode :: string

text \<open>
  The state hooks of \<open>Home\<close> the handlers write, and the lines written with
  \<open>console.error\<close>, each with the error it reports.
\<close>

record home_state =
  villages :: "village list"
  citizens :: "citizen list"
  isLoading :: bool
  activeTab :: string
  console :: "(string \<times> remote_error) list"

definition console_error :: "string \<Rightarrow> remote_error \<Rightarrow> home_state \<Rightarrow> home_state" where
  "console_error label e st = st\<lparr>console := console st @ [(label, e)]\<rparr>"

text \<open>The function \<open>fetchData\<close> maps over the fetched village rows.\<close>

definition to_village :: "village_row \<Rightarrow> village" where
  "to_village v =
     \<lparr>id_v = row_village_id v, name_v = village_name v, district = district_name v,
      pincode = row_pincode v\<rparr>"

text \<open>
  \<open>fetchData\<close>: both tables are fetched, and an error of either fetch is thrown,
  before the first cache is written. The \<open>catch\<close> block logs the error and the
  \<open>finally\<close> block clears the loading flag. The citizens are fetched only when the
  villages fetch did not fail, so the second response is not read in that case.
\<close>

definition fetchData ::
  "village_row list response \<Rightarrow> citizen list response \<Rightarrow> home_state \<Rightarrow> home_state" where
  "fetchData villagesRes citizensRes st0 =
     (let st1 = st0\<lparr>isLoading := True\<rparr>;
          st2 =
            (case error villagesRes of
               Some villagesError \<Rightarrow> console_error ''Error fetching data:'' villagesError st1
             | None \<Rightarrow>
                 (case error citizensRes of
                    Some citizensError \<Rightarrow>
                      console_error ''Error fetching data:'' citizensError st1
                  | None \<Rightarrow>
                      (let st' =
                             (case data villagesRes of
                                Some villagesData \<Rightarrow>
                                  st1\<lparr>villages := map to_village villagesData\<rparr>
                              | None \<Rightarrow> st1)
                       in (case data citizensRes of
                             Some citizensData \<Rightarrow> st'\<lparr>citizens := citizensData\<rparr>
                           | None \<Rightarrow> st'))))
      in st2\<lparr>isLoading := False\<rparr>)"

text \<open>
  The delete handlers await the store's answer; only its \<open>error\<close> member is read.
  \<open>!==\<close> on the citizen's \<open>village_id\<close> is strict inequality of numbers.
\<close>

definition handleDeleteVillage :: "int \<Rightarrow> remote_error option \<Rightarrow> home_state \<Rightarrow> home_state" where
  "handleDeleteVillage vid err st =
     (case err of
        Some e \<Rightarrow> console_error ''Error deleting village:'' e st
      | None \<Rightarrow>
          st\<lparr>villages := filter (\<lambda>village. id_v village \<noteq> vid) (villages st),
             citizens :=
               filter (\<lambda>citizen. \<not> js_strict_eq (village_id citizen) (Num vid)) (citizens st)\<rparr>)"

definition handleDeleteCitizen ::
  "string \<Rightarrow> remote_error option \<Rightarrow> home_state \<Rightarrow> home_state" where
  "handleDeleteCitizen aadhar err st =
     (case err of
        Some e \<Rightarrow> console_error ''Error deleting citizen:'' e st
      | None \<Rightarrow>
          st\<lparr>citizens :=
               filter (\<lambda>citizen. aadhar_number citizen \<noteq> aadhar) (citizens st)\<rparr>)"

text \<open>
  The add and update handlers. Their test \<open>typeof village_id === "string"\<close> is false
  for every value of the declared type \<open>number\<close>, so the conversion under it does not
  appear here.
\<close>

definition handleAddCitizen ::
  "citizen \<Rightarrow> remote_error option \<Rightarrow> home_state \<Rightarrow> home_state" where
  "handleAddCitizen citizen err st =
     (case err of
        Some e \<Rightarrow> console_error ''Error adding citizen:'' e st
      | None \<Rightarrow> st\<lparr>citizens := citizens st @ [citizen]\<rparr>)"


section \<open>VillageManagement: its own list of villages\<close>

text \<open>
  \<open>VillageManagement\<close> takes no props: it fetches and keeps its own list of village
  rows and holds no citizens. Its delete handler returns at once when no village is
  selected.
\<close>

record village_management_state =
  vm_villages :: "village_row list"
  selectedVillage :: "village_row option"
  isDeleteDialogOpen :: bool
  toasts :: "(string \<times> string) list"
  vm_console :: "(string \<times> remote_error) list"

definition vm_handleDeleteVillage ::
  "remote_error option \<Rightarrow> village_management_state \<Rightarrow> village_management_state" where
  "vm_handleDeleteVillage err st =
     (case selectedVillage st of
        None \<Rightarrow> st
      | Some sel \<Rightarrow>
          (case err of
             Some e \<Rightarrow>
               st\<lparr>vm_console := vm_console st @ [(''Error deleting village:'', e)],
                  toasts := toasts st @
                    [(''Error'',
                      ''Failed to delete village. Make sure there are no citizens associated with this village.'')]\<rparr>
           | None \<Rightarrow>
               st\<lparr>vm_villages :=
                    filter (\<lambda>village. row_village_id village \<noteq> row_village_id sel)
                      (vm_villages st),
                  isDeleteDialogOpen := False,
                  toasts := toasts st @
                    [(''Village Deleted'', village_name sel @ '' has been deleted successfully.'')],
                  selectedVillage := None\<rparr>))"

text \<open>The trash button of a row: it selects the row's village and opens the dialog.\<close>

definition openDeleteDialog ::
  "village_row \<Rightarrow> village_management_state \<Rightarrow> village_management_state" where
  "openDeleteDialog village st = st\<lparr>selectedVillage := Some village, isDeleteDialogOpen := True\<rparr>"

section \<open>The page: Home with VillageManagement inside\<close>

text \<open>
  \<open>Home\<close> renders \<open>VillageManagement\<close> and hands it \<open>villages\<close>, \<open>onAdd\<close>,
  \<open>onUpdate\<close> and \<open>onDelete = handleDeleteVillage\<close>. \<open>VillageManagement\<close> is
  declared without parameters, so none of these reaches it: the state of the page is
  the state of \<open>Home\<close> beside the state of \<open>VillageManagement\<close>, and the
  \<open>Delete\<close> button of the confirmation dialog runs the handler of
  \<open>VillageManagement\<close> on the latter only.
\<close>

record page_state =
  home_part :: home_state
  village_part :: village_management_state

definition click_delete :: "remote_error option \<Rightarrow> page_state \<Rightarrow> page_state" where
  "click_delete err pg = pg\<lparr>village_part := vm_handleDeleteVillage err (village_part pg)\<rparr>"

definition click_trash :: "village_row \<Rightarrow> page_state \<Rightarrow> page_state" where
  "click_trash village pg = pg\<lparr>village_part := openDeleteDialog village (village_part pg)\<rparr>"

section \<open>CitizenRegistry: the validated form\<close>

subsection \<open>\<open>parseInt\<close>\<close>

text \<open>
  \<open>parseInt(s)\<close> with no radix: leading white space is skipped, a sign is read, a
  prefix \<open>0x\<close> or \<open>0X\<close> selects radix 16, and the longest run of digits of the
  radix is the value; the result is \<open>NaN\<close> when that run is empty.
\<close>

definition is_space :: "char \<Rightarrow> bool" where
  "is_space c = (let n = (of_char c :: nat) in (9 \<le> n \<and> n \<le> 13) \<or> n = 32)"

definition digit_of :: "nat \<Rightarrow> char \<Rightarrow> nat option" where
  "digit_of radix c =
     (let n = (of_char c :: nat);
          v = (if 48 \<le> n \<and> n \<le> 57 then Some (n - 48)
               else if 97 \<le> n \<and> n \<le> 102 then Some (n - 87)
               else if 65 \<le> n \<and> n \<le> 70 then Some (n - 55)
               else None)
      in case v of
           Some d \<Rightarrow> if d < radix then Some d else None
         | None \<Rightarrow> None)"

fun parse_digits :: "nat \<Rightarrow> string \<Rightarrow> nat option \<Rightarrow> nat option" where
  "parse_digits radix [] acc = acc"
| "parse_digits radix (c # cs) acc =
     (case digit_of radix c of
        None \<Rightarrow> acc
      | Some d \<Rightarrow>
          parse_digits radix cs
            (Some (radix * (case acc of None \<Rightarrow> 0 | Some a \<Rightarrow> a) + d)))"

definition parseInt :: "string \<Rightarrow> jsnum" where
  "parseInt s =
     (let t = dropWhile is_space s;
          neg = (case t of c # r \<Rightarrow> c = CHR ''-'' | [] \<Rightarrow> False);
          u = (case t of c # r \<Rightarrow> if c = CHR ''-'' \<or> c = CHR ''+'' then r else t | [] \<Rightarrow> t);
          hex = (startsWith u ''0x'' \<or> startsWith u ''0X'');
          radix = (if hex then 16 else 10);
          w = (if hex then drop 2 u else u)
      in case parse_digits radix w None of
           None \<Rightarrow> NaN
         | Some n \<Rightarrow> Num (if neg then - int n else int n))"

subsection \<open>The schema\<close>

text \<open>
  The values the form holds when it is submitted: one string for each field, or no value
  at all (\<open>undefined\<close>, here \<open>None\<close>).
\<close>

record form_values =
  f_aadhar_number :: "string option"
  f_village_id :: "string option"
  f_name :: "string option"
  f_dob :: "string option"
  f_age :: "string option"
  f_gender :: "string option"
  f_address :: "string option"
  f_marital_status :: "string option"
  f_father_name :: "string option"
  f_mother_name :: "string option"
  f_spouse_name :: "string option"
  f_status :: "string option"
  f_education :: "string option"
  f_occupation :: "string option"
  f_remarks :: "string option"

text \<open>\<open>defaultValues\<close> when no initial data is given (a new registration).\<close>

definition defaultValues :: form_values where
  "defaultValues =
     \<lparr>f_aadhar_number = Some [], f_village_id = Some [], f_name = Some [],
      f_dob = Some [], f_age = Some [], f_gender = Some ''male'', f_address = Some [],
      f_marital_status = Some ''single'', f_father_name = Some [],
      f_mother_name = Some [], f_spouse_name = Some [], f_status = Some ''alive'',
      f_education = Some [], f_occupation = Some [], f_remarks = Some []\<rparr>"

text \<open>\<open>CitizenFormValues\<close>, the type the schema infers: what a successful parse returns.\<close>

record citizen_form_values =
  v_aadhar_number :: string
  v_village_id :: string
  v_name :: string
  v_dob :: string
  v_age :: string
  v_gender :: string
  v_address :: string
  v_marital_status :: string
  v_father_name :: string
  v_mother_name :: string
  v_spouse_name :: "string option"
  v_status :: string
  v_education :: string
  v_occupation :: string
  v_remarks :: "string option"

text \<open>The regular expression \<open>/^\d+$/\<close>: one or more characters, all of them digits.\<close>

definition is_digit :: "char \<Rightarrow> bool" where
  "is_digit c = (let n = (of_char c :: nat) in 48 \<le> n \<and> n \<le> 57)"

definition all_digits :: "string \<Rightarrow> bool" where
  "all_digits s = (s \<noteq> [] \<and> list_all is_digit s)"

text \<open>
  The checks of one field, as the list of messages they raise. A \<open>z.string()\<close> raises
  its required-error (\<open>Required\<close> unless the schema names another) for a missing
  value, and otherwise every check of the chain that fails adds its message. An
  \<open>optional()\<close> string accepts a missing value.
\<close>

definition z_string :: "string \<Rightarrow> (string \<Rightarrow> string list) \<Rightarrow> string option \<Rightarrow> string list" where
  "z_string required_error checks v =
     (case v of None \<Rightarrow> [required_error] | Some s \<Rightarrow> checks s)"

definition z_optional :: "(string option \<Rightarrow> string list) \<Rightarrow> string option \<Rightarrow> string list" where
  "z_optional schema v = (case v of None \<Rightarrow> [] | Some s \<Rightarrow> schema v)"

definition z_enum :: "string list \<Rightarrow> string option \<Rightarrow> string list" where
  "z_enum allowed v =
     (case v of
        None \<Rightarrow> [''Required'']
      | Some s \<Rightarrow> if s \<in> set allowed then [] else [''Invalid enum value''])"

definition z_length :: "nat \<Rightarrow> string \<Rightarrow> string \<Rightarrow> string list" where
  "z_length n msg s = (if length s = n then [] else [msg])"

definition z_min :: "nat \<Rightarrow> string \<Rightarrow> string \<Rightarrow> string list" where
  "z_min n msg s = (if n \<le> length s then [] else [msg])"

definition z_digits :: "string \<Rightarrow> string \<Rightarrow> string list" where
  "z_digits msg s = (if all_digits s then [] else [msg])"

definition no_checks :: "string \<Rightarrow> string list" where
  "no_checks s = []"

text \<open>
  The issues \<open>citizenFormSchema\<close> raises for the form's values, each with the name of
  its field, in the order of the schema's fields.
\<close>

definition field_issues :: "string \<Rightarrow> string list \<Rightarrow> (string \<times> string) list" where
  "field_issues field msgs = map (\<lambda>m. (field, m)) msgs"

definition issues :: "form_values \<Rightarrow> (string \<times> string) list" where
  "issues f =
     field_issues ''aadhar_number''
       (z_string ''Required''
          (\<lambda>s. z_length 12 ''Aadhar number must be exactly 12 digits'' s
                @ z_digits ''Aadhar number must contain only digits'' s)
          (f_aadhar_number f))
     @ field_issues ''village_id''
         (z_string ''Please select a village'' no_checks (f_village_id f))
     @ field_issues ''name''
         (z_string ''Required'' (z_min 2 ''Name must be at least 2 characters'') (f_name f))
     @ field_issues ''dob'' (z_string ''Required'' no_checks (f_dob f))
     @ field_issues ''age''
         (z_string ''Required'' (z_digits ''Age must be a number'') (f_age f))
     @ field_issues ''gender'' (z_enum [''male'', ''female'', ''other''] (f_gender f))
     @ field_issues ''address''
         (z_string ''Required'' (z_min 5 ''Address must be at least 5 characters'')
            (f_address f))
     @ field_issues ''marital_status''
         (z_enum [''single'', ''married'', ''divorced'', ''widowed''] (f_marital_status f))
     @ field_issues ''father_name''
         (z_string ''Required'' (z_min 2 ''Father's name must be at least 2 characters'')
            (f_father_name f))
     @ field_issues ''mother_name''
         (z_string ''Required'' (z_min 2 ''Mother's name must be at least 2 characters'')
            (f_mother_name f))
     @ field_issues ''spouse_name''
         (z_optional (z_string ''Required'' no_checks) (f_spouse_name f))
     @ field_issues ''status'' (z_enum [''alive'', ''dead''] (f_status f))
     @ field_issues ''education'' (z_string ''Required'' no_checks (f_education f))
     @ field_issues ''occupation'' (z_string ''Required'' no_checks (f_occupation f))
     @ field_issues ''remarks''
         (z_optional (z_string ''Required'' no_checks) (f_remarks f))"

text \<open>
  The string a required field holds. The schema reads it only when no issue was raised,
  and then every required field has a value.
\<close>

fun held :: "string option \<Rightarrow> string" where
  "held (Some s) = s"
| "held None = []"

definition citizenFormSchema :: "form_values \<Rightarrow> (string \<times> string) list + citizen_form_values" where
  "citizenFormSchema f =
     (if issues f = [] then
        Inr \<lparr>v_aadhar_number = held (f_aadhar_number f),
             v_village_id = held (f_village_id f),
             v_name = held (f_name f),
             v_dob = held (f_dob f),
             v_age = held (f_age f),
             v_gender = held (f_gender f),
             v_address = held (f_address f),
             v_marital_status = held (f_marital_status f),
             v_father_name = held (f_father_name f),
             v_mother_name = held (f_mother_name f),
             v_spouse_name = f_spouse_name f,
             v_status = held (f_status f),
             v_education = held (f_education f),
             v_occupation = held (f_occupation f),
             v_remarks = f_remarks f\<rparr>
      else Inl (issues f))"

subsection \<open>Submitting\<close>

text \<open>\<open>x || null\<close> on an optional string: a missing or empty string becomes null.\<close>

fun or_null :: "string option \<Rightarrow> string option" where
  "or_null None = None"
| "or_null (Some s) = (if s = [] then None else Some s)"

text \<open>The object \<open>citizenData\<close> that \<open>handleSubmit\<close> builds from the parsed values.\<close>

definition citizenData :: "citizen_form_values \<Rightarrow> citizen" where
  "citizenData d =
     \<lparr>aadhar_number = v_aadhar_number d,
      name = v_name d,
      dob = v_dob d,
      age = parseInt (v_age d),
      gender = v_gender d,
      address = v_address d,
      marital_status = v_marital_status d,
      father_name = Some (v_father_name d),
      mother_name = Some (v_mother_name d),
      spouse_name = or_null (v_spouse_name d),
      education = v_education d,
      occupation = v_occupation d,
      village_id = parseInt (v_village_id d),
      status = v_status d,
      remarks = or_null (v_remarks d)\<rparr>"

text \<open>
  The state hooks of \<open>CitizenRegistry\<close>, the toasts it shows, the issues the form
  displays after a refused submission, and whether the form was reset.
\<close>

record registry_state =
  isSubmitting :: bool
  reg_error :: "string option"
  reg_toasts :: "(string \<times> string) list"
  shown_issues :: "(string \<times> string) list"
  form_reset :: bool

text \<open>
  \<open>handleSubmit\<close>. \<open>initial_aadhar\<close> is \<open>initialData.aadhar_number\<close>, which
  selects the update branch when it is a non-empty string. \<open>err\<close> is the error member
  of the store's answer to the update or the insert. \<open>onUpdate\<close> and \<open>onAdd\<close> are
  the optional props, acting on the state of the parent that passed them; they are
  called only after the store answered without an error. A thrown error is caught and
  its message is put in the \<open>error\<close> hook, which the form shows as an alert.
  The optional prop \<open>onSave\<close>, which \<open>Home\<close> does not pass, is left out.
\<close>

definition handleSubmit ::
  "string option \<Rightarrow> (citizen \<Rightarrow> 's \<Rightarrow> 's) option \<Rightarrow> (citizen \<Rightarrow> 's \<Rightarrow> 's) option
     \<Rightarrow> citizen_form_values \<Rightarrow> remote_error option \<Rightarrow> registry_state \<times> 's
     \<Rightarrow> registry_state \<times> 's" where
  "handleSubmit initial_aadhar onUpdate onAdd d err rp =
     (let reg = (fst rp)\<lparr>isSubmitting := True, reg_error := None\<rparr>;
          parent = snd rp;
          cd = citizenData d;
          after =
            (if or_null initial_aadhar \<noteq> None then
               (case err of
                  Some e \<Rightarrow> (reg\<lparr>reg_error := Some (message e)\<rparr>, parent)
                | None \<Rightarrow>
                    (reg\<lparr>reg_toasts := reg_toasts reg @
                           [(''Success'', ''Citizen record has been updated successfully.'')]\<rparr>,
                     (case onUpdate of Some g \<Rightarrow> g cd parent | None \<Rightarrow> parent)))
             else
               (case err of
                  Some e \<Rightarrow> (reg\<lparr>reg_error := Some (message e)\<rparr>, parent)
                | None \<Rightarrow>
                    (reg\<lparr>reg_toasts := reg_toasts reg @
                           [(''Success'', ''Citizen record has been added successfully.'')],
                         form_reset := True\<rparr>,
                     (case onAdd of Some g \<Rightarrow> g cd parent | None \<Rightarrow> parent))))
      in ((fst after)\<lparr>isSubmitting := False\<rparr>, snd after))"

text \<open>
  The submit button: the form's values go through the schema first. When the schema
  raises an issue the form shows the issues and \<open>handleSubmit\<close> is not called, so the
  store is not called either.
\<close>

definition onSubmit ::
  "string option \<Rightarrow> (citizen \<Rightarrow> 's \<Rightarrow> 's) option \<Rightarrow> (citizen \<Rightarrow> 's \<Rightarrow> 's) option
     \<Rightarrow> form_values \<Rightarrow> remote_error option \<Rightarrow> registry_state \<times> 's
     \<Rightarrow> registry_state \<times> 's" where
  "onSubmit initial_aadhar onUpdate onAdd f err rp =
     (case citizenFormSchema f of
        Inl raised \<Rightarrow> ((fst rp)\<lparr>shown_issues := raised\<rparr>, snd rp)
      | Inr d \<Rightarrow>
          handleSubmit initial_aadhar onUpdate onAdd d err
            ((fst rp)\<lparr>shown_issues := []\<rparr>, snd rp))"

section \<open>Sample data\<close>

text \<open>
  The three citizens and the first village the initial migration inserts, with the
  default life status; they serve as concrete inputs below.
\<close>

definition raj_kumar :: citizen where
  "raj_kumar =
     \<lparr>aadhar_number = ''123456789012'', name = ''Raj Kumar'', dob = ''1985-05-15'',
      age = Num 38, gender = ''Male'', address = ''House No. 123, Rampur'',
      marital_status = ''Married'', father_name = Some ''Mohan Lal'',
      mother_name = Some ''Kamla Devi'', spouse_name = Some ''Sunita Devi'',
      education = ''Graduate'', occupation = ''Farmer'', village_id = Num 1,
      status = ''alive'', remarks = None\<rparr>"

definition priya_singh :: citizen where
  "priya_singh =
     \<lparr>aadhar_number = ''234567890123'', name = ''Priya Singh'', dob = ''1990-08-22'',
      age = Num 33, gender = ''Female'', address = ''House No. 456, Shyampur'',
      marital_status = ''Married'', father_name = Some ''Ramesh Singh'',
      mother_name = Some ''Geeta Singh'', spouse_name = Some ''Vikram Singh'',
      education = ''Post Graduate'', occupation = ''Teacher'', village_id = Num 2,
      status = ''alive'', remarks = None\<rparr>"

definition amit_sharma :: citizen where
  "amit_sharma =
     \<lparr>aadhar_number = ''345678901234'', name = ''Amit Sharma'', dob = ''1995-03-10'',
      age = Num 28, gender = ''Male'', address = ''House No. 789, Ganeshpur'',
      marital_status = ''Unmarried'', father_name = Some ''Suresh Sharma'',
      mother_name = Some ''Radha Sharma'', spouse_name = None,
      education = ''Graduate'', occupation = ''Software Engineer'', village_id = Num 3,
      status = ''alive'', remarks = None\<rparr>"

definition rampur :: village where
  "rampur = \<lparr>id_v = 1, name_v = ''Rampur'', district = ''Jaipur'', pincode = ''302001''\<rparr>"

definition shyampur :: village where
  "shyampur = \<lparr>id_v = 2, name_v = ''Shyampur'', district = ''Ajmer'', pincode = ''305001''\<rparr>"

definition sample_home :: home_state where
  "sample_home =
     \<lparr>villages = [rampur, shyampur], citizens = [raj_kumar, priya_singh, amit_sharma],
      isLoading = False, activeTab = ''dashboard'', console = []\<rparr>"

text \<open>A second record with the name, number and age of Raj Kumar's.\<close>

definition raj_twin :: citizen where
  "raj_twin = raj_kumar\<lparr>address := ''House No. 9, Rampur''\<rparr>"

text \<open>Eight more residents of Rampur, told apart by the last digit of their number.\<close>

definition resident :: "char \<Rightarrow> citizen" where
  "resident c =
     raj_kumar\<lparr>aadhar_number := ''90000000000'' @ [c], name := ''Resident '' @ [c]\<rparr>"

definition eleven_citizens :: "citizen list" where
  "eleven_citizens =
     [raj_kumar, priya_singh, amit_sharma] @ map resident ''01234567''"

text \<open>
  A comparator with the shape of \<open>localeCompare\<close> for the concrete inputs: strings
  are compared character by character by their codes.
\<close>

fun codeCompare :: "string \<Rightarrow> string \<Rightarrow> int" where
  "codeCompare [] [] = 0"
| "codeCompare [] (c # t) = - 1"
| "codeCompare (d # s) [] = 1"
| "codeCompare (d # s) (c # t) =
     (if (of_char d :: nat) < of_char c then - 1
      else if (of_char c :: nat) < of_char d then 1
      else codeCompare s t)"

text \<open>A filled-in registration form for Raj Kumar.\<close>

definition raj_form :: form_values where
  "raj_form =
     \<lparr>f_aadhar_number = Some ''123456789012'', f_village_id = Some ''1'',
      f_name = Some ''Raj Kumar'', f_dob = Some ''1985-05-15'', f_age = Some ''38'',
      f_gender = Some ''male'', f_address = Some ''House No. 123, Rampur'',
      f_marital_status = Some ''married'', f_father_name = Some ''Mohan Lal'',
      f_mother_name = Some ''Kamla Devi'', f_spouse_name = Some ''Sunita Devi'',
      f_status = Some ''alive'', f_education = Some ''Graduate'',
      f_occupation = Some ''Farmer'', f_remarks = Some []\<rparr>"

text \<open>The values the schema returns for that form.\<close>

definition raj_values :: citizen_form_values where
  "raj_values =
     \<lparr>v_aadhar_number = ''123456789012'', v_village_id = ''1'', v_name = ''Raj Kumar'',
      v_dob = ''1985-05-15'', v_age = ''38'', v_gender = ''male'',
      v_address = ''House No. 123, Rampur'', v_marital_status = ''married'',
      v_father_name = ''Mohan Lal'', v_mother_name = ''Kamla Devi'',
      v_spouse_name = Some ''Sunita Devi'', v_status = ''alive'',
      v_education = ''Graduate'', v_occupation = ''Farmer'', v_remarks = Some []\<rparr>"

definition rampur_row :: village_row where
  "rampur_row =
     \<lparr>row_village_id = 1, village_name = ''Rampur'', district_name = ''Jaipur'',
      row_pincode = ''302001''\<rparr>"

definition shyampur_row :: village_row where
  "shyampur_row =
     \<lparr>row_village_id = 2, village_name = ''Shyampur'', district_name = ''Ajmer'',
      row_pincode = ''305001''\<rparr>"

text \<open>The page after both components loaded the sample tables.\<close>

definition sample_page :: page_state where
  "sample_page =
     \<lparr>home_part = sample_home,
      village_part =
        \<lparr>vm_villages = [rampur_row, shyampur_row], selectedVillage = None,
         isDeleteDialogOpen = False, toasts = [], vm_console = []\<rparr>\<rparr>"

definition idle_registry :: registry_state where
  "idle_registry =
     \<lparr>isSubmitting = False, reg_error = None, reg_toasts = [], shown_issues = [],
      form_reset = False\<rparr>"

section \<open>Properties of the page-number window\<close>

lemma push_pages_upto: "push_pages i hi pages = pages @ map Page [i..hi]"
proof (induction i hi pages rule: push_pages.induct)
  case (1 i hi pages)
  show ?case
  proof (cases "i \<le> hi")
    case True
    then have "[i..hi] = i # [i + 1..hi]"
      by (simp add: upto_rec1)
    with True 1 show ?thesis
      by (subst push_pages.simps) simp
  next
    case False
    then show ?thesis
      by (subst push_pages.simps) simp
  qed
qed

lemma upto_four: "[t - 3..t] = [t - 3, t - 2, t - 1, t]" for t :: int
proof -
  have "[t - 3..t] = (t - 3) # [t - 2..t]" by (simp add: upto_rec1)
  also have "[t - 2..t] = (t - 2) # [t - 1..t]" by (simp add: upto_rec1)
  also have "[t - 1..t] = [t - 1, t]" by (simp add: upto_rec1)
  finally show ?thesis .
qed

lemma upto_one_four: "[1..4] = [1, 2, 3, 4::int]"
  using upto_four [of 4] by simp

text \<open>
  Claim C5. For a page count \<open>T \<ge> 1\<close> and a current page \<open>C\<close> with
  \<open>1 \<le> C \<le> T\<close>, \<open>getPageNumbers\<close> lists the pages \<open>1..T\<close> when \<open>T \<le> 5\<close>;
  \<open>1, 2, 3, 4, ellipsis, T\<close> when \<open>T > 5\<close> and \<open>C \<le> 3\<close>;
  \<open>1, ellipsis, T-3, T-2, T-1, T\<close> when \<open>T > 5\<close> and \<open>C \<ge> T-2\<close>; and
  \<open>1, ellipsis, C-1, C, C+1, ellipsis, T\<close> in the remaining case.
\<close>

theorem getPageNumbers_window:
  assumes "1 \<le> T" and "1 \<le> C" and "C \<le> T"
  shows "(T \<le> 5 \<longrightarrow> getPageNumbers T C = map Page [1..T])
       \<and> (5 < T \<and> C \<le> 3 \<longrightarrow>
            getPageNumbers T C = [Page 1, Page 2, Page 3, Page 4, Ellipsis, Page T])
       \<and> (5 < T \<and> T - 2 \<le> C \<longrightarrow>
            getPageNumbers T C =
              [Page 1, Ellipsis, Page (T - 3), Page (T - 2), Page (T - 1), Page T])
       \<and> (5 < T \<and> 3 < C \<and> C < T - 2 \<longrightarrow>
            getPageNumbers T C =
              [Page 1, Ellipsis, Page (C - 1), Page C, Page (C + 1), Ellipsis, Page T])"
  by (simp add: getPageNumbers_def maxVisiblePages_def push_pages_upto upto_one_four
        upto_four)

text \<open>
  The instances the specification lists: \<open>T = 12\<close> with \<open>C = 1\<close>, \<open>C = 10\<close> and
  \<open>C = 6\<close>, and \<open>T = 4\<close>.
\<close>

theorem getPageNumbers_window_witness:
  "getPageNumbers 12 1 = [Page 1, Page 2, Page 3, Page 4, Ellipsis, Page 12]
   \<and> getPageNumbers 12 10 = [Page 1, Ellipsis, Page 9, Page 10, Page 11, Page 12]
   \<and> getPageNumbers 12 6 = [Page 1, Ellipsis, Page 5, Page 6, Page 7, Ellipsis, Page 12]
   \<and> getPageNumbers 4 2 = [Page 1, Page 2, Page 3, Page 4]"
  using getPageNumbers_window [of 12 1] getPageNumbers_window [of 12 10]
    getPageNumbers_window [of 12 6] getPageNumbers_window [of 4 2]
  by (simp add: upto_one_four)

section \<open>Properties of the query: sort and pages\<close>

lemma length_insert_sorted: "length (insert_sorted cmp x ys) = Suc (length ys)"
  by (induction ys) simp_all

lemma length_array_sort: "length (array_sort cmp xs) = length xs"
  by (induction xs) (simp_all add: array_sort_def length_insert_sorted)

lemma set_insert_sorted: "set (insert_sorted cmp x ys) = insert x (set ys)"
  by (induction ys) auto

lemma set_array_sort: "set (array_sort cmp xs) = set xs"
  by (induction xs) (simp_all add: array_sort_def set_insert_sorted)

text \<open>
  Inserting an element changes the subsequence of the elements satisfying \<open>P\<close> only
  when the element satisfies \<open>P\<close> itself, and then it goes to the front of that
  subsequence if it is never placed after an element satisfying \<open>P\<close>.
\<close>

lemma filter_insert_sorted_other:
  "\<not> P x \<Longrightarrow> filter P (insert_sorted cmp x ys) = filter P ys"
  by (induction ys) simp_all

lemma filter_insert_sorted_same:
  assumes "P x" and "\<And>y. P y \<Longrightarrow> \<not> comes_after (cmp x y)"
  shows "filter P (insert_sorted cmp x ys) = x # filter P ys"
  using assms by (induction ys) auto

lemma array_sort_stable:
  assumes "\<And>x y. key x = key y \<Longrightarrow> \<not> comes_after (cmp x y)"
  shows "filter (\<lambda>y. key y = k) (array_sort cmp xs) = filter (\<lambda>y. key y = k) xs"
proof (induction xs)
  case Nil
  show ?case by (simp add: array_sort_def)
next
  case (Cons x xs)
  have step: "array_sort cmp (x # xs) = insert_sorted cmp x (array_sort cmp xs)"
    by (simp add: array_sort_def)
  show ?case
  proof (cases "key x = k")
    case True
    have "filter (\<lambda>y. key y = k) (insert_sorted cmp x (array_sort cmp xs))
            = x # filter (\<lambda>y. key y = k) (array_sort cmp xs)"
      using True assms by (intro filter_insert_sorted_same) simp_all
    with True Cons.IH step show ?thesis by simp
  next
    case False
    with Cons.IH step show ?thesis
      by (simp add: filter_insert_sorted_other)
  qed
qed

lemma js_sub_same: "\<not> comes_after (js_sub a a)"
  by (cases a) simp_all

lemma compareCitizens_equal_keys:
  assumes "\<And>s. lc s s = 0"
    and "sort_key_of (sortField st) a = sort_key_of (sortField st) b"
  shows "\<not> comes_after (compareCitizens lc st a b)"
  using assms by (cases "sortField st") (simp_all add: compareCitizens_def js_sub_same)

lemma codeCompare_same: "codeCompare s s = 0"
  by (induction s) simp_all

text \<open>
  Claim C4. Let \<open>localeCompare\<close> return \<open>0\<close> for a string and itself. For every
  list of citizens, table state and key \<open>k\<close>, the citizens with sort key \<open>k\<close> stand in
  \<open>sortedCitizens\<close> in the order they have in \<open>filteredCitizens\<close>, for each of the
  three sort fields and both orders (the state holds the field and the order). Sorting
  the three citizens of ages \<open>38, 33, 28\<close> by age, descending, gives them in that
  order.
\<close>

theorem sortedCitizens_stable:
  assumes "\<And>s. lc s s = 0"
  shows "filter (\<lambda>c. sort_key_of (sortField st) c = k) (sortedCitizens lc cits st)
           = filter (\<lambda>c. sort_key_of (sortField st) c = k) (filteredCitizens cits st)
       \<and> sortedCitizens lc [raj_kumar, priya_singh, amit_sharma]
           (initial_table_state\<lparr>sortField := SortAge, sortOrder := Desc\<rparr>)
           = [raj_kumar, priya_singh, amit_sharma]
       \<and> map age [raj_kumar, priya_singh, amit_sharma] = [Num 38, Num 33, Num 28]"
proof -
  have "filter (\<lambda>c. sort_key_of (sortField st) c = k) (sortedCitizens lc cits st)
           = filter (\<lambda>c. sort_key_of (sortField st) c = k) (filteredCitizens cits st)"
    unfolding sortedCitizens_def
    using assms by (intro array_sort_stable compareCitizens_equal_keys)
  moreover have "sortedCitizens lc [raj_kumar, priya_singh, amit_sharma]
           (initial_table_state\<lparr>sortField := SortAge, sortOrder := Desc\<rparr>)
           = [raj_kumar, priya_singh, amit_sharma]"
    by (simp add: sortedCitizens_def filteredCitizens_def initial_table_state_def
          array_sort_def compareCitizens_def raj_kumar_def priya_singh_def amit_sharma_def)
  moreover have "map age [raj_kumar, priya_singh, amit_sharma] = [Num 38, Num 33, Num 28]"
    by (simp add: raj_kumar_def priya_singh_def amit_sharma_def)
  ultimately show ?thesis by simp
qed

lemma sorted_pair_any_field:
  "sortedCitizens codeCompare [raj_kumar, raj_twin]
     (initial_table_state\<lparr>sortField := f, sortOrder := ord\<rparr>) = [raj_kumar, raj_twin]"
  "sortedCitizens codeCompare [raj_twin, raj_kumar]
     (initial_table_state\<lparr>sortField := f, sortOrder := ord\<rparr>) = [raj_twin, raj_kumar]"
  by (cases f; cases ord;
      simp add: sortedCitizens_def filteredCitizens_def initial_table_state_def
        array_sort_def compareCitizens_def raj_twin_def raj_kumar_def codeCompare_same)+

text \<open>
  With the character-code comparator: two records with the same name, number and age
  keep their order, whichever of the two comes first, for every sort field and order.
\<close>

theorem sortedCitizens_stable_witness:
  "(\<forall>s. codeCompare s s = 0)
   \<and> (\<forall>f ord.
        sortedCitizens codeCompare [raj_kumar, raj_twin]
          (initial_table_state\<lparr>sortField := f, sortOrder := ord\<rparr>) = [raj_kumar, raj_twin]
        \<and> sortedCitizens codeCompare [raj_twin, raj_kumar]
          (initial_table_state\<lparr>sortField := f, sortOrder := ord\<rparr>) = [raj_twin, raj_kumar])
   \<and> sortedCitizens codeCompare [raj_kumar, priya_singh, amit_sharma]
        (initial_table_state\<lparr>sortField := SortAge, sortOrder := Desc\<rparr>)
        = [raj_kumar, priya_singh, amit_sharma]"
  using sortedCitizens_stable [of codeCompare, OF codeCompare_same]
  by (simp add: sorted_pair_any_field codeCompare_same)

subsection \<open>Pages\<close>

lemma ceil_div_ceiling:
  assumes "0 < b"
  shows "ceil_div a b = \<lceil>real_of_int a / real_of_int b\<rceil>"
proof -
  have "\<lceil>real_of_int a / real_of_int b\<rceil> = - \<lfloor>real_of_int (- a) / real_of_int b\<rfloor>"
    by (simp add: ceiling_def)
  also have "\<dots> = - ((- a) div b)"
    by (simp only: floor_divide_of_int_eq)
  finally show ?thesis
    by (simp add: ceil_div_def)
qed

lemma ceil_div_covers:
  assumes "0 < b"
  shows "a \<le> ceil_div a b * b" and "(ceil_div a b - 1) * b < a"
proof -
  define q where "q = (- a) div b"
  define r where "r = (- a) mod b"
  have e: "q * b + r = - a"
    by (simp add: q_def r_def)
  have m: "0 \<le> r" "r < b"
    using assms by (simp_all add: r_def)
  have c: "ceil_div a b * b = - (q * b)"
    by (simp add: ceil_div_def q_def)
  from e m(1) show "a \<le> ceil_div a b * b"
    unfolding c by linarith
  have "(ceil_div a b - 1) * b = - (q * b) - b"
    using c by (simp add: algebra_simps)
  with e m(2) show "(ceil_div a b - 1) * b < a"
    by linarith
qed

lemma slice_page:
  assumes "0 \<le> s" and "0 \<le> n"
  shows "slice xs s (s + n) = take (nat n) (drop (nat s) xs)"
proof -
  let ?len = "int (length xs)"
  consider "?len < s" | "s \<le> ?len" "s + n \<le> ?len" | "s \<le> ?len" "?len < s + n"
    by linarith
  then show ?thesis
  proof cases
    case 1
    with assms show ?thesis
      by (simp add: slice_def Let_def min_def)
  next
    case 2
    with assms have "nat (s + n - s) = nat n" by simp
    with 2 assms show ?thesis
      by (simp add: slice_def Let_def min_def)
  next
    case 3
    with assms have "length (drop (nat s) xs) \<le> nat n"
      by simp
    moreover from 3 assms have "length (drop (nat s) xs) \<le> nat (?len - s)"
      by simp
    ultimately have "take (nat (?len - s)) (drop (nat s) xs) = take (nat n) (drop (nat s) xs)"
      by simp
    with 3 assms show ?thesis
      by (simp add: slice_def Let_def min_def)
  qed
qed

lemma pages_concat:
  assumes "0 \<le> t"
  shows "concat (map (\<lambda>p. slice xs ((p - 1) * 10) ((p - 1) * 10 + 10)) [1..t])
           = take (nat (t * 10)) xs"
  using assms
proof (induction t rule: int_ge_induct)
  case base
  show ?case by simp
next
  case (step i)
  have "[1..i + 1] = [1..i] @ [i + 1]"
    using step.hyps by (simp add: upto_rec2)
  moreover have "slice xs (i * 10) (i * 10 + 10) = take 10 (drop (nat (i * 10)) xs)"
    using step.hyps slice_page [of "i * 10" 10 xs] by simp
  moreover have "take (nat (i * 10)) xs @ take 10 (drop (nat (i * 10)) xs)
                   = take (nat ((i + 1) * 10)) xs"
    using step.hyps
    by (simp add: take_add [symmetric] nat_add_distrib algebra_simps nat_mult_distrib)
  ultimately show ?case
    using step.IH by simp
qed

lemma filteredCitizens_page:
  "filteredCitizens cits (st\<lparr>currentPage := p\<rparr>) = filteredCitizens cits st"
  by (simp add: filteredCitizens_def)

lemma compareCitizens_page:
  "compareCitizens lc (st\<lparr>currentPage := p\<rparr>) = compareCitizens lc st"
  by (rule ext, rule ext) (simp add: compareCitizens_def)

lemma sortedCitizens_page:
  "sortedCitizens lc cits (st\<lparr>currentPage := p\<rparr>) = sortedCitizens lc cits st"
  by (simp add: sortedCitizens_def filteredCitizens_page compareCitizens_page)

lemma length_sortedCitizens:
  "length (sortedCitizens lc cits st) = length (filteredCitizens cits st)"
  by (simp add: sortedCitizens_def length_array_sort)

text \<open>The page count is the ceiling of the filtered count over the page size.\<close>

lemma totalPages_ceiling:
  "totalPages lc cits st = \<lceil>real (length (filteredCitizens cits st)) / 10\<rceil>"
  by (simp add: totalPages_def itemsPerPage_def ceil_div_ceiling length_sortedCitizens)

text \<open>
  Claim C6. The pages for the page indices \<open>1\<close> to \<open>totalPages\<close>, one after the
  other, are the whole filtered and sorted list: as lists, so with every element once
  and in its place.
\<close>

theorem pages_partition:
  "concat (map (\<lambda>p. paginatedCitizens lc cits (st\<lparr>currentPage := p\<rparr>))
             [1..totalPages lc cits st])
     = sortedCitizens lc cits st"
proof -
  let ?xs = "sortedCitizens lc cits st"
  let ?t = "totalPages lc cits st"
  have t: "0 \<le> ?t" and cover: "int (length ?xs) \<le> ?t * 10"
    using ceil_div_covers(1) [of 10 "int (length ?xs)"]
    by (simp_all add: totalPages_def itemsPerPage_def)
  have "(\<lambda>p. paginatedCitizens lc cits (st\<lparr>currentPage := p\<rparr>))
          = (\<lambda>p. slice ?xs ((p - 1) * 10) ((p - 1) * 10 + 10))"
    by (simp add: paginatedCitizens_def startIndex_def itemsPerPage_def sortedCitizens_page)
  then have "concat (map (\<lambda>p. paginatedCitizens lc cits (st\<lparr>currentPage := p\<rparr>)) [1..?t])
          = take (nat (?t * 10)) ?xs"
    using pages_concat [OF t, of ?xs] by simp
  also have "\<dots> = ?xs"
    using cover by simp
  finally show ?thesis .
qed

subsection \<open>The current page\<close>

text \<open>
  While the current page lies between \<open>1\<close> and the page count, the page shown is not
  empty, and the two arrows of the navigation keep the current page in that range.
\<close>

lemma page_in_range_nonempty:
  assumes "1 \<le> currentPage st" and "currentPage st \<le> totalPages lc cits st"
  shows "paginatedCitizens lc cits st \<noteq> []"
proof -
  let ?xs = "sortedCitizens lc cits st"
  let ?s = "(currentPage st - 1) * 10"
  have "(totalPages lc cits st - 1) * 10 < int (length ?xs)"
    using ceil_div_covers(2) [of 10 "int (length ?xs)"]
    by (simp add: totalPages_def itemsPerPage_def)
  with assms have s: "0 \<le> ?s" "?s < int (length ?xs)"
    by simp_all
  have "paginatedCitizens lc cits st = take 10 (drop (nat ?s) ?xs)"
    using slice_page [of ?s 10 ?xs] s(1)
    by (simp add: paginatedCitizens_def startIndex_def itemsPerPage_def)
  moreover have "drop (nat ?s) ?xs \<noteq> []"
    using s by simp
  ultimately show ?thesis
    by simp
qed

text \<open>A current page beyond the page count shows an empty page.\<close>

lemma page_beyond_count_empty:
  assumes "totalPages lc cits st < currentPage st"
  shows "paginatedCitizens lc cits st = []"
proof -
  let ?xs = "sortedCitizens lc cits st"
  let ?s = "(currentPage st - 1) * 10"
  have "int (length ?xs) \<le> totalPages lc cits st * 10"
    using ceil_div_covers(1) [of 10 "int (length ?xs)"]
    by (simp add: totalPages_def itemsPerPage_def)
  with assms have s: "0 \<le> ?s" "int (length ?xs) \<le> ?s"
    by simp_all
  have "paginatedCitizens lc cits st = take 10 (drop (nat ?s) ?xs)"
    using slice_page [of ?s 10 ?xs] s(1)
    by (simp add: paginatedCitizens_def startIndex_def itemsPerPage_def)
  moreover have "drop (nat ?s) ?xs = []"
    using s by simp
  ultimately show ?thesis
    by simp
qed

lemma navigation_clamps:
  "currentPage (table_handler lc cits st ClickNext) \<le> totalPages lc cits st"
  "1 \<le> currentPage (table_handler lc cits st ClickPrevious)"
  by (simp_all add: table_handler_def)

lemma filtered_priya:
  "filteredCitizens eleven_citizens
     (initial_table_state\<lparr>currentPage := 2, searchTerm := ''priya''\<rparr>) = [priya_singh]"
  by code_simp

lemma filtered_all:
  "length (filteredCitizens eleven_citizens initial_table_state) = 11"
  by (simp add: filteredCitizens_def eleven_citizens_def initial_table_state_def)

text \<open>
  Claim C1. The page size is \<open>10\<close> and the page count is the ceiling of the filtered
  count over \<open>10\<close> (lemma \<open>totalPages_ceiling\<close>), but the page index is not clamped
  when the list shrinks under it. With eleven citizens in the table, \<open>Next\<close> leads to
  page \<open>2\<close> of \<open>2\<close>; typing \<open>priya\<close> in the search box then leaves one citizen
  and one page, the current page stays \<open>2\<close>, and the page shown is empty although the
  filtered list is not.
\<close>

theorem stale_page_after_search:
  "table_run lc eleven_citizens initial_table_state [ClickNext, ChangeSearchTerm ''priya'']
     = Some (initial_table_state\<lparr>currentPage := 2, searchTerm := ''priya''\<rparr>)
   \<and> filteredCitizens eleven_citizens
        (initial_table_state\<lparr>currentPage := 2, searchTerm := ''priya''\<rparr>) = [priya_singh]
   \<and> totalPages lc eleven_citizens
        (initial_table_state\<lparr>currentPage := 2, searchTerm := ''priya''\<rparr>) = 1
   \<and> paginatedCitizens lc eleven_citizens
        (initial_table_state\<lparr>currentPage := 2, searchTerm := ''priya''\<rparr>) = []"
proof -
  let ?st = "initial_table_state\<lparr>currentPage := 2, searchTerm := ''priya''\<rparr>"
  have t0: "totalPages lc eleven_citizens initial_table_state = 2"
    by (simp add: totalPages_def length_sortedCitizens filtered_all itemsPerPage_def
          ceil_div_def)
  have run: "table_run lc eleven_citizens initial_table_state
                [ClickNext, ChangeSearchTerm ''priya''] = Some ?st"
    by (simp add: rendered_def table_handler_def t0) (simp add: initial_table_state_def)
  have len: "length (sortedCitizens lc eleven_citizens ?st) = 1"
    by (simp add: length_sortedCitizens filtered_priya)
  have t1: "totalPages lc eleven_citizens ?st = 1"
    by (simp add: totalPages_def len itemsPerPage_def ceil_div_def)
  have "paginatedCitizens lc eleven_citizens ?st
          = take 10 (drop 10 (sortedCitizens lc eleven_citizens ?st))"
    using slice_page [of 10 10 "sortedCitizens lc eleven_citizens ?st"]
    by (simp add: paginatedCitizens_def startIndex_def itemsPerPage_def)
  then have page: "paginatedCitizens lc eleven_citizens ?st = []"
    using len by simp
  from run filtered_priya t1 page show ?thesis
    by simp
qed

section \<open>Properties of the caches of Home\<close>

lemma js_strict_eq_Num: "js_strict_eq x (Num v) = (x = Num v)"
  by (cases x) simp_all

lemma filter_key_remove1:
  assumes "distinct (map f xs)" and "v \<in> set xs"
  shows "filter (\<lambda>x. f x \<noteq> f v) xs = remove1 v xs"
  using assms
proof (induction xs)
  case Nil
  then show ?case by simp
next
  case (Cons x xs)
  show ?case
  proof (cases "x = v")
    case True
    with Cons.prems have "f v \<notin> f ` set xs" by simp
    then have "\<forall>x\<in>set xs. f x \<noteq> f v"
      by (metis imageI)
    then have "filter (\<lambda>x. f x \<noteq> f v) xs = xs"
      by (simp only: filter_id_conv)
    with True show ?thesis by simp
  next
    case False
    with Cons.prems have "v \<in> set xs" and "f x \<noteq> f v"
      by auto
    with Cons show ?thesis using False by simp
  qed
qed

text \<open>
  \<open>Home.handleDeleteVillage\<close> mirrors the store's cascade: in a cache whose villages
  have distinct identifiers, deleting a cached village \<open>V\<close> with the store's
  acknowledgement removes \<open>V\<close> and no other village, removes exactly the cached
  citizens whose \<open>village_id\<close> is the identifier of \<open>V\<close>, keeping the others in
  their order, and changes nothing else of the state.
\<close>

lemma handleDeleteVillage_cascade:
  assumes "V \<in> set (villages st)" and "distinct (map id_v (villages st))"
  shows "villages (handleDeleteVillage (id_v V) None st) = remove1 V (villages st)
       \<and> set (villages (handleDeleteVillage (id_v V) None st)) = set (villages st) - {V}
       \<and> citizens (handleDeleteVillage (id_v V) None st)
           = filter (\<lambda>c. village_id c \<noteq> Num (id_v V)) (citizens st)
       \<and> isLoading (handleDeleteVillage (id_v V) None st) = isLoading st
       \<and> activeTab (handleDeleteVillage (id_v V) None st) = activeTab st
       \<and> console (handleDeleteVillage (id_v V) None st) = console st"
proof -
  have d: "distinct (villages st)"
    using assms(2) by (rule distinct_map [THEN iffD1, THEN conjunct1])
  have "filter (\<lambda>v. id_v v \<noteq> id_v V) (villages st) = remove1 V (villages st)"
    using assms(2) assms(1) by (rule filter_key_remove1)
  then show ?thesis
    using d by (simp add: handleDeleteVillage_def js_strict_eq_Num)
qed

text \<open>
  The handler of \<open>VillageManagement\<close> works on that component's own list: with a
  village selected and the store's acknowledgement it removes the rows with the selected
  identifier from the list.
\<close>

lemma vm_handleDeleteVillage_removes:
  "vm_villages (vm_handleDeleteVillage None (st\<lparr>selectedVillage := Some sel\<rparr>))
     = filter (\<lambda>v. row_village_id v \<noteq> row_village_id sel) (vm_villages st)"
  by (simp add: vm_handleDeleteVillage_def)

text \<open>
  Claim C2. The cascade into the local caches does not happen on the path the page
  runs. The \<open>Delete\<close> button runs the handler of \<open>VillageManagement\<close>, which never
  writes the state of \<open>Home\<close>, whatever the store answers. On the sample page, after
  the trash button of Rampur and \<open>Delete\<close> with the store's acknowledgement, Rampur
  is gone from the list of \<open>VillageManagement\<close>, while the villages cache of
  \<open>Home\<close> still holds Rampur and its citizens cache still holds Raj Kumar, whose
  \<open>village_id\<close> is Rampur's identifier. \<open>Home.handleDeleteVillage\<close>, the handler
  passed as \<open>onDelete\<close> and never called, does remove both from the same caches.
\<close>

theorem village_delete_leaves_home_caches:
  "home_part (click_delete err pg) = home_part pg
   \<and> villages (home_part (click_delete None (click_trash rampur_row sample_page)))
       = [rampur, shyampur]
   \<and> citizens (home_part (click_delete None (click_trash rampur_row sample_page)))
       = [raj_kumar, priya_singh, amit_sharma]
   \<and> village_id raj_kumar = Num (row_village_id rampur_row)
   \<and> id_v rampur = row_village_id rampur_row
   \<and> vm_villages (village_part (click_delete None (click_trash rampur_row sample_page)))
       = [shyampur_row]
   \<and> villages (handleDeleteVillage (row_village_id rampur_row) None sample_home) = [shyampur]
   \<and> citizens (handleDeleteVillage (row_village_id rampur_row) None sample_home)
       = [priya_singh, amit_sharma]"
proof -
  have a: "home_part (click_delete err pg) = home_part pg"
    by (simp add: click_delete_def)
  have b: "home_part (click_delete None (click_trash rampur_row sample_page)) = sample_home"
    by (simp add: click_delete_def click_trash_def sample_page_def)
  have c: "vm_villages (village_part (click_delete None (click_trash rampur_row sample_page)))
       = [shyampur_row]"
    by (simp add: click_delete_def click_trash_def sample_page_def openDeleteDialog_def
          vm_handleDeleteVillage_def rampur_row_def shyampur_row_def)
  have d: "villages (handleDeleteVillage (row_village_id rampur_row) None sample_home) = [shyampur]"
    "citizens (handleDeleteVillage (row_village_id rampur_row) None sample_home)
       = [priya_singh, amit_sharma]"
    by (simp_all add: handleDeleteVillage_def sample_home_def rampur_row_def rampur_def
          shyampur_def raj_kumar_def priya_singh_def amit_sharma_def)
  have e: "village_id raj_kumar = Num (row_village_id rampur_row)"
    "id_v rampur = row_village_id rampur_row"
    by (simp_all add: raj_kumar_def rampur_row_def rampur_def)
  from a b c d e show ?thesis
    by (simp add: sample_home_def)
qed

text \<open>
  Claim C10. Deleting the citizen with key \<open>k\<close> with the store's acknowledgement
  (\<open>Home.handleDeleteCitizen\<close>) leaves in the citizens cache exactly the entries whose
  \<open>aadhar_number\<close> differs from \<open>k\<close>, unchanged and in their order, so that no entry
  with key \<open>k\<close> remains; the villages cache, and every other part of the state, is as
  before.
\<close>

theorem handleDeleteCitizen_frame:
  "citizens (handleDeleteCitizen k None st)
     = filter (\<lambda>c. aadhar_number c \<noteq> k) (citizens st)
   \<and> k \<notin> set (map aadhar_number (citizens (handleDeleteCitizen k None st)))
   \<and> villages (handleDeleteCitizen k None st) = villages st
   \<and> handleDeleteCitizen k None st
       = st\<lparr>citizens := citizens (handleDeleteCitizen k None st)\<rparr>"
  by (auto simp: handleDeleteCitizen_def)

text \<open>
  Claim C7. When the villages fetch or the citizens fetch of \<open>fetchData\<close> returns an
  error, the villages cache and the citizens cache are what they were and the error is
  written to the console; when both fetches return their rows without an error, the
  villages cache is the fetched table, row by row and in order, with \<open>id\<close>,
  \<open>name\<close>, \<open>district\<close> and \<open>pincode\<close> taken from the row's \<open>village_id\<close>,
  \<open>village_name\<close>, \<open>district_name\<close> and \<open>pincode\<close>, and the citizens cache is
  the fetched table.
\<close>

theorem fetchData_all_or_nothing:
  "(error villagesRes = Some e \<longrightarrow>
      villages (fetchData villagesRes citizensRes st) = villages st
      \<and> citizens (fetchData villagesRes citizensRes st) = citizens st
      \<and> console (fetchData villagesRes citizensRes st)
          = console st @ [(''Error fetching data:'', e)])
   \<and> (error villagesRes = None \<and> error citizensRes = Some e \<longrightarrow>
      villages (fetchData villagesRes citizensRes st) = villages st
      \<and> citizens (fetchData villagesRes citizensRes st) = citizens st
      \<and> console (fetchData villagesRes citizensRes st)
          = console st @ [(''Error fetching data:'', e)])
   \<and> (error villagesRes = None \<and> error citizensRes = None
        \<and> data villagesRes = Some villagesData \<and> data citizensRes = Some citizensData \<longrightarrow>
      villages (fetchData villagesRes citizensRes st)
        = map (\<lambda>v. \<lparr>id_v = row_village_id v, name_v = village_name v,
                      district = district_name v, pincode = row_pincode v\<rparr>) villagesData
      \<and> map id_v (villages (fetchData villagesRes citizensRes st))
          = map row_village_id villagesData
      \<and> map name_v (villages (fetchData villagesRes citizensRes st))
          = map village_name villagesData
      \<and> map district (villages (fetchData villagesRes citizensRes st))
          = map district_name villagesData
      \<and> map pincode (villages (fetchData villagesRes citizensRes st))
          = map row_pincode villagesData
      \<and> citizens (fetchData villagesRes citizensRes st) = citizensData
      \<and> console (fetchData villagesRes citizensRes st) = console st)"
proof -
  have conv: "to_village = (\<lambda>v. \<lparr>id_v = row_village_id v, name_v = village_name v,
                      district = district_name v, pincode = row_pincode v\<rparr>)"
    by (rule ext) (simp add: to_village_def)
  show ?thesis
    by (simp add: fetchData_def console_error_def Let_def conv comp_def)
qed

text \<open>
  On the sample cache: a failed villages fetch and a failed citizens fetch both keep the
  two villages and the three citizens; a successful load of two village rows and one
  citizen replaces both caches, the villages in the order and with the fields of the
  fetched rows.
\<close>

theorem fetchData_all_or_nothing_witness:
  "villages (fetchData \<lparr>data = None, error = Some (RemoteError ''fetch failed'')\<rparr>
               \<lparr>data = Some [amit_sharma], error = None\<rparr> sample_home)
     = [rampur, shyampur]
   \<and> citizens (fetchData \<lparr>data = None, error = Some (RemoteError ''fetch failed'')\<rparr>
               \<lparr>data = Some [amit_sharma], error = None\<rparr> sample_home)
     = [raj_kumar, priya_singh, amit_sharma]
   \<and> villages (fetchData \<lparr>data = Some [shyampur_row, rampur_row], error = None\<rparr>
               \<lparr>data = None, error = Some (RemoteError ''fetch failed'')\<rparr> sample_home)
     = [rampur, shyampur]
   \<and> citizens (fetchData \<lparr>data = Some [shyampur_row, rampur_row], error = None\<rparr>
               \<lparr>data = None, error = Some (RemoteError ''fetch failed'')\<rparr> sample_home)
     = [raj_kumar, priya_singh, amit_sharma]
   \<and> villages (fetchData \<lparr>data = Some [shyampur_row, rampur_row], error = None\<rparr>
               \<lparr>data = Some [amit_sharma], error = None\<rparr> sample_home)
     = [\<lparr>id_v = 2, name_v = ''Shyampur'', district = ''Ajmer'', pincode = ''305001''\<rparr>,
        \<lparr>id_v = 1, name_v = ''Rampur'', district = ''Jaipur'', pincode = ''302001''\<rparr>]
   \<and> citizens (fetchData \<lparr>data = Some [shyampur_row, rampur_row], error = None\<rparr>
               \<lparr>data = Some [amit_sharma], error = None\<rparr> sample_home)
     = [amit_sharma]"
  using
    fetchData_all_or_nothing
      [where villagesRes = "\<lparr>data = None, error = Some (RemoteError ''fetch failed'')\<rparr>"
         and citizensRes = "\<lparr>data = Some [amit_sharma], error = None\<rparr>"
         and e = "RemoteError ''fetch failed''" and st = sample_home]
    fetchData_all_or_nothing
      [where villagesRes = "\<lparr>data = Some [shyampur_row, rampur_row], error = None\<rparr>"
         and citizensRes = "\<lparr>data = None, error = Some (RemoteError ''fetch failed'')\<rparr>"
         and e = "RemoteError ''fetch failed''" and st = sample_home]
    fetchData_all_or_nothing
      [where villagesRes = "\<lparr>data = Some [shyampur_row, rampur_row], error = None\<rparr>"
         and citizensRes = "\<lparr>data = Some [amit_sharma], error = None\<rparr>"
         and villagesData = "[shyampur_row, rampur_row]" and citizensData = "[amit_sharma]"
         and st = sample_home]
  by (simp add: sample_home_def rampur_row_def shyampur_row_def)



section \<open>Properties of the form's schema\<close>

lemmas schema_defs =
  issues_def z_string_def z_enum_def z_optional_def z_length_def z_min_def z_digits_def
  all_digits_def is_digit_def field_issues_def no_checks_def

lemma in_field_issues:
  "((a, m) \<in> set (field_issues fld msgs)) = (a = fld \<and> m \<in> set msgs)"
  by (auto simp: field_issues_def)





text \<open>
  Claim C9. The village field of a new form starts as the empty string. Raj Kumar's
  form with that village selection raises no issue, so the schema accepts it; the
  citizen built from the accepted values has \<open>village_id = parseInt("")\<close>, which is
  \<open>NaN\<close>, and this is the citizen a submission with the store's acknowledgement adds
  to the cache. The schema raises \<open>Please select a village\<close> for a form exactly when
  the form has no value at all for the village, so not for this one.
\<close>

theorem empty_village_selection_accepted:
  "f_village_id defaultValues = Some []
   \<and> issues (raj_form\<lparr>f_village_id := Some []\<rparr>) = []
   \<and> citizenFormSchema (raj_form\<lparr>f_village_id := Some []\<rparr>)
       = Inr (raj_values\<lparr>v_village_id := []\<rparr>)
   \<and> village_id (citizenData (raj_values\<lparr>v_village_id := []\<rparr>)) = parseInt []
   \<and> parseInt [] = NaN
   \<and> (\<forall>g. ((''village_id'', ''Please select a village'') \<in> set (issues g))
            = (f_village_id g = None))
   \<and> map village_id
        (citizens (snd (onSubmit None None (Some (\<lambda>c. handleAddCitizen c None))
                          (raj_form\<lparr>f_village_id := Some []\<rparr>) None
                          (idle_registry, sample_home\<lparr>citizens := []\<rparr>))))
       = [NaN]"
proof -
  have a: "issues (raj_form\<lparr>f_village_id := Some []\<rparr>) = []"
    by (simp add: schema_defs raj_form_def)
  have b: "citizenFormSchema (raj_form\<lparr>f_village_id := Some []\<rparr>)
       = Inr (raj_values\<lparr>v_village_id := []\<rparr>)"
    by (simp add: citizenFormSchema_def a) (simp add: raj_form_def raj_values_def)
  have c: "parseInt [] = NaN"
    by (simp add: parseInt_def)
  have d: "((''village_id'', ''Please select a village'') \<in> set (issues g))
            = (f_village_id g = None)" for g
    by (simp add: issues_def in_field_issues z_string_def no_checks_def split: option.splits)
  have e: "map village_id
        (citizens (snd (onSubmit None None (Some (\<lambda>c. handleAddCitizen c None))
                          (raj_form\<lparr>f_village_id := Some []\<rparr>) None
                          (idle_registry, sample_home\<lparr>citizens := []\<rparr>))))
       = [NaN]"
    by (simp add: b c onSubmit_def handleSubmit_def handleAddCitizen_def citizenData_def)
  have f: "f_village_id defaultValues = Some []"
    by (simp add: defaultValues_def)
  have g: "village_id (citizenData (raj_values\<lparr>v_village_id := []\<rparr>)) = parseInt []"
    by (simp add: citizenData_def)
  from a b c d e f g show ?thesis
    by blast
qed

end
